theory Spec2Isabelle
  imports Main
begin

section \<open>JavaScript values and objects\<close>

text \<open>
  The primitive values that the service passes around.  Numbers are restricted to the
  integers (no NaN, no fractions), so that strict equality \<^verbatim>\<open>===\<close> on these values
  is HOL equality.
\<close>

datatype jsval = JUndefined | JNull | JBool bool | JNum int | JStr string

text \<open>\<^verbatim>\<open>!v\<close> is true exactly on the falsy values.\<close>

fun falsy :: "jsval \<Rightarrow> bool" where
  "falsy JUndefined = True"
| "falsy JNull = True"
| "falsy (JBool b) = (b = False)"
| "falsy (JNum n) = (n = 0)"
| "falsy (JStr s) = (s = [])"

text \<open>A plain object: its own properties in insertion order.\<close>

type_synonym obj = "(string \<times> jsval) list"

text \<open>Reading a property that is absent gives \<^verbatim>\<open>undefined\<close>.\<close>

definition lookup :: "obj \<Rightarrow> string \<Rightarrow> jsval" where
  "lookup ob k = (case map_of ob k of None \<Rightarrow> JUndefined | Some v \<Rightarrow> v)"

fun assign :: "string \<Rightarrow> jsval \<Rightarrow> obj \<Rightarrow> obj" where
  "assign k v [] = [(k, v)]"
| "assign k v ((k', v') # ps) = (if k' = k then (k, v) # ps else (k', v') # assign k v ps)"

text \<open>An exception value (what a \<^verbatim>\<open>throw\<close> carries, what a promise is rejected with).\<close>

datatype exn = Error string

section \<open>Model instances\<close>

text \<open>
  Modelled from the spec: \<^verbatim>\<open>models/user.js\<close> is not among the sources. The spec's data
  model gives a user the fields id, email, password, nickname and mbti; the comment of
  \<^verbatim>\<open>deleteUser\<close> says the model is paranoid (soft delete), which adds the deletion
  mark.
\<close>

definition User_attributes :: "string list" where
  "User_attributes = [''id'', ''email'', ''password'', ''nickname'', ''mbti'', ''deletedAt'']"

text \<open>
  An instance of the ORM model: the values of its attributes (\<^verbatim>\<open>dataValues\<close>, what
  \<^verbatim>\<open>save\<close> writes back) and the other JavaScript properties that have been put on the
  object. The ORM defines an accessor on the prototype for every attribute of the model and for
  nothing else: reading or writing \<^verbatim>\<open>user[key]\<close> goes to \<^verbatim>\<open>dataValues\<close> when
  \<^verbatim>\<open>key\<close> is an attribute, and to an ordinary own property otherwise.
\<close>

record User =
  dataValues :: obj
  own :: obj

definition getDataValue :: "User \<Rightarrow> string \<Rightarrow> jsval" where
  "getDataValue u k = lookup (dataValues u) k"

definition getp :: "User \<Rightarrow> string \<Rightarrow> jsval" where
  "getp u k = (if k \<in> set User_attributes then getDataValue u k else lookup (own u) k)"

definition setp :: "User \<Rightarrow> string \<Rightarrow> jsval \<Rightarrow> User" where
  "setp u k v =
     (if k \<in> set User_attributes then u\<lparr>dataValues := assign k v (dataValues u)\<rparr>
      else u\<lparr>own := assign k v (own u)\<rparr>)"

section \<open>Responses\<close>

text \<open>
  Modelled from the spec: \<^verbatim>\<open>utils/statusCode.js\<close> and
  \<^verbatim>\<open>utils/responseMessage.js\<close> are not among the sources. The members are the names
  the service uses; \<open>statusCode_value\<close> gives a member the number the spec names for it
  (200, 400, 401, 204 and 500). The spec gives no number for \<^verbatim>\<open>statusCode.SUCCESS\<close>, which
  only \<^verbatim>\<open>resignToken\<close> uses, inside a body.
\<close>

datatype statusCode = OK | BAD_REQUEST | UNAUTHORIZED | NO_CONTENT | DB_ERROR | SUCCESS

fun statusCode_value :: "statusCode \<Rightarrow> nat option" where
  "statusCode_value OK = Some 200"
| "statusCode_value BAD_REQUEST = Some 400"
| "statusCode_value UNAUTHORIZED = Some 401"
| "statusCode_value NO_CONTENT = Some 204"
| "statusCode_value DB_ERROR = Some 500"
| "statusCode_value SUCCESS = None"

datatype message =
    SUCCESS_msg | INVALID_USER_INFO | INTERNAL_SERVER_ERROR | ALREADY_EXIST_EMAIL
  | ALREADY_EXIST_NICKNAME | FORBIDDEN | REFRESH_TOKEN_UNNECESSARY | NULL_VALUE
  | DB_ERROR_msg | BAD_REQUEST_msg

text \<open>
  \<^verbatim>\<open>utils/response.js\<close> and \<^verbatim>\<open>utils/responseData.js\<close> are not among the sources
  either: a body and its payload are recorded as the call that builds them, with its arguments.
  \<open>NoData\<close> is the payload of \<^verbatim>\<open>response(status, message)\<close>, called without a third
  argument.
\<close>

datatype data =
    NoData
  | loginResponse jsval jsval
  | signUpResponse jsval jsval
  | resignTokenResponse jsval jsval
  | UserData User
  | DeletedData User

datatype body = response statusCode message data | errResponse statusCode message

text \<open>
  What an operation hands back: the array \<^verbatim>\<open>[statusCode, body]\<close>, a body alone, or
  nothing (\<^verbatim>\<open>undefined\<close>, when the function body ends without a \<^verbatim>\<open>return\<close>).
\<close>

datatype retval = Tuple statusCode body | Body body | Undefined

text \<open>
  The operations are \<^verbatim>\<open>async\<close>: the caller gets a promise that is fulfilled with the
  returned value or rejected with the exception that escaped.
\<close>

datatype outcome = Returns retval | Throws exn

section \<open>Collaborators and effects\<close>

text \<open>
  A call to a collaborator reads and changes the world \<open>'w\<close> outside the service (the users
  table, the cache, the token issuer) and either yields a value or throws.
\<close>

type_synonym ('a, 'w) io = "'w \<Rightarrow> (exn + 'a) \<times> 'w"

definition await :: "('a, 'w) io \<Rightarrow> ('a \<Rightarrow> ('b, 'w) io) \<Rightarrow> ('b, 'w) io" where
  "await m f w = (case m w of (Inl err, w') \<Rightarrow> (Inl err, w') | (Inr x, w') \<Rightarrow> f x w')"

definition ret :: "'a \<Rightarrow> ('a, 'w) io" where
  "ret x w = (Inr x, w)"

text \<open>A synchronous library call, which touches no state.\<close>

definition sync :: "exn + 'a \<Rightarrow> ('a, 'w) io" where
  "sync r w = (r, w)"

text \<open>\<^verbatim>\<open>try { body } catch (err) { return handler }\<close> around a whole function body.\<close>

definition try_catch :: "(retval, 'w) io \<Rightarrow> (exn \<Rightarrow> retval) \<Rightarrow> 'w \<Rightarrow> outcome \<times> 'w" where
  "try_catch b handler w =
     (case b w of (Inl err, w') \<Rightarrow> (Returns (handler err), w') | (Inr r, w') \<Rightarrow> (Returns r, w'))"

text \<open>A function body with no handler around it: the exception rejects the promise.\<close>

definition no_catch :: "(retval, 'w) io \<Rightarrow> 'w \<Rightarrow> outcome \<times> 'w" where
  "no_catch b w =
     (case b w of (Inl err, w') \<Rightarrow> (Throws err, w') | (Inr r, w') \<Rightarrow> (Returns r, w'))"

text \<open>
  \<^verbatim>\<open>utils/constants.js\<close> is not among the sources: the three members of
  \<^verbatim>\<open>resignTokenStatus\<close> that the service compares with are parameters.
\<close>

record resignTokenStatus_t =
  RESIGN_ACCESS_TOKEN :: jsval
  UNAUTHORIZED_st :: jsval
  UNNECESSARY :: jsval

text \<open>
  The collaborators of the service, none of them among the sources, as parameters: the ORM
  model \<^verbatim>\<open>User\<close> (\<open>User_findOne\<close> takes the \<^verbatim>\<open>where\<close> object and the
  \<^verbatim>\<open>attributes\<close> option), the methods \<^verbatim>\<open>save\<close> and \<^verbatim>\<open>destroy\<close> of an
  instance (which yield the object as the call leaves it), \<^verbatim>\<open>bcrypt\<close>, the token
  utilities and the cache client. A result \<open>Inl\<close> is an exception thrown or, for the calls
  that return a promise, a rejection. \<open>js_String\<close> is the built-in \<^verbatim>\<open>String\<close>, which
  \<^verbatim>\<open>logout\<close> applies to the user id to get the cache key.
\<close>

record 'w env =
  User_findOne :: "obj \<Rightarrow> string list option \<Rightarrow> (User option, 'w) io"
  User_findByPk :: "jsval \<Rightarrow> (User option, 'w) io"
  User_create :: "obj \<Rightarrow> (User, 'w) io"
  save :: "User \<Rightarrow> (User, 'w) io"
  destroy :: "User \<Rightarrow> obj \<Rightarrow> (User, 'w) io"
  compareSync :: "jsval \<Rightarrow> jsval \<Rightarrow> exn + bool"
  hashSync :: "jsval \<Rightarrow> nat \<Rightarrow> exn + jsval"
  signTokens :: "jsval \<Rightarrow> (jsval \<times> jsval, 'w) io"
  resignAccessToken :: "jsval \<Rightarrow> jsval \<Rightarrow> (jsval \<times> jsval, 'w) io"
  redisClient_del :: "string \<Rightarrow> (unit, 'w) io"
  js_String :: "jsval \<Rightarrow> string"
  resignTokenStatus :: resignTokenStatus_t

section \<open>The user service\<close>

text \<open>
  The seven operations of \<^verbatim>\<open>src/services/user/userService.js\<close>, each under the name it
  has there. An operation takes the collaborators and the world and yields what the caller
  gets and the world it leaves.
\<close>

subsection \<open>logout\<close>

text \<open>
  Lines 111 to 118. \<^verbatim>\<open>redisClient.del(String(userId))\<close> is not awaited: the deletion takes effect in the
  cache, and whether its promise is fulfilled or rejected is never looked at.
\<close>

definition logout :: "'w env \<Rightarrow> jsval \<Rightarrow> 'w \<Rightarrow> outcome \<times> 'w" where
  "logout E userId w =
     (case redisClient_del E (js_String E userId) w of
        (_, w') \<Rightarrow> (Returns (Tuple OK (response OK SUCCESS_msg NoData)), w'))"

subsection \<open>resignToken\<close>

text \<open>
  Lines 120 to 143. The array that \<^verbatim>\<open>resignAccessToken\<close> resolves to is taken apart into
  \<^verbatim>\<open>result\<close> and \<^verbatim>\<open>newAccessToken\<close>; the chain of comparisons has no last
  \<^verbatim>\<open>else\<close>, and no handler stands around the body.
\<close>

definition resignToken_body :: "'w env \<Rightarrow> jsval \<Rightarrow> jsval \<Rightarrow> (retval, 'w) io" where
  "resignToken_body E accessToken refreshToken =
     await (resignAccessToken E accessToken refreshToken) (\<lambda>(result, newAccessToken).
       if result = RESIGN_ACCESS_TOKEN (resignTokenStatus E) then
         ret (Tuple OK
           (response SUCCESS SUCCESS_msg (resignTokenResponse newAccessToken refreshToken)))
       else if result = UNAUTHORIZED_st (resignTokenStatus E) then
         ret (Tuple UNAUTHORIZED (errResponse UNAUTHORIZED FORBIDDEN))
       else if result = UNNECESSARY (resignTokenStatus E) then
         ret (Tuple BAD_REQUEST (errResponse BAD_REQUEST REFRESH_TOKEN_UNNECESSARY))
       else ret Undefined)"

definition resignToken :: "'w env \<Rightarrow> jsval \<Rightarrow> jsval \<Rightarrow> 'w \<Rightarrow> outcome \<times> 'w" where
  "resignToken E accessToken refreshToken = no_catch (resignToken_body E accessToken refreshToken)"

subsection \<open>login\<close>

text \<open>
  Lines 18 to 61. The two \<^verbatim>\<open>console.log\<close> lines print the stored hash and the result of a first
  comparison; the comparison is made again for the test. Logging itself has no effect here.
\<close>

definition login_body :: "'w env \<Rightarrow> jsval \<Rightarrow> jsval \<Rightarrow> (retval, 'w) io" where
  "login_body E email password =
     await (User_findOne E [(''email'', email)] (Some [''id'', ''password''])) (\<lambda>user.
       case user of
         None \<Rightarrow> ret (Tuple BAD_REQUEST (errResponse BAD_REQUEST INVALID_USER_INFO))
       | Some u \<Rightarrow>
           let encodedPassword = getDataValue u ''password'' in
           await (sync (compareSync E password encodedPassword)) (\<lambda>logged.
           await (sync (compareSync E password encodedPassword)) (\<lambda>isValidPassword.
             if isValidPassword then
               let userId = getDataValue u ''id'' in
               await (signTokens E userId) (\<lambda>(accessToken, refreshToken).
                 ret (Tuple OK
                   (response OK SUCCESS_msg (loginResponse accessToken refreshToken))))
             else ret (Tuple BAD_REQUEST (errResponse BAD_REQUEST INVALID_USER_INFO)))))"

definition login :: "'w env \<Rightarrow> jsval \<Rightarrow> jsval \<Rightarrow> 'w \<Rightarrow> outcome \<times> 'w" where
  "login E email password =
     try_catch (login_body E email password)
       (\<lambda>err. Tuple DB_ERROR (errResponse DB_ERROR INTERNAL_SERVER_ERROR))"

subsection \<open>signUp\<close>

text \<open>
  Lines 63 to 109. The id of the new user is read as the property \<^verbatim>\<open>user_id\<close> of the
  object that \<^verbatim>\<open>User.create\<close> resolves to.
\<close>

definition signUp_body :: "'w env \<Rightarrow> jsval \<Rightarrow> jsval \<Rightarrow> jsval \<Rightarrow> (retval, 'w) io" where
  "signUp_body E email password nickname =
     await (User_findOne E [(''email'', email)] None) (\<lambda>isExistEmail.
       case isExistEmail of
         Some found \<Rightarrow> ret (Tuple BAD_REQUEST (errResponse BAD_REQUEST ALREADY_EXIST_EMAIL))
       | None \<Rightarrow>
           await (User_findOne E [(''nickname'', nickname)] None) (\<lambda>isExistNickname.
             case isExistNickname of
               Some found \<Rightarrow>
                 ret (Tuple BAD_REQUEST (errResponse BAD_REQUEST ALREADY_EXIST_NICKNAME))
             | None \<Rightarrow>
                 await (sync (hashSync E password 10)) (\<lambda>encryptedPassword.
                 await (User_create E
                     [(''email'', email), (''password'', encryptedPassword),
                      (''nickname'', nickname)]) (\<lambda>newUser.
                   let userId = getp newUser ''user_id'' in
                   await (signTokens E userId) (\<lambda>(accessToken, refreshToken).
                     ret (Tuple OK
                       (response OK SUCCESS_msg (signUpResponse accessToken refreshToken))))))))"

definition signUp :: "'w env \<Rightarrow> jsval \<Rightarrow> jsval \<Rightarrow> jsval \<Rightarrow> 'w \<Rightarrow> outcome \<times> 'w" where
  "signUp E email password nickname =
     try_catch (signUp_body E email password nickname)
       (\<lambda>err. Tuple DB_ERROR (errResponse DB_ERROR INTERNAL_SERVER_ERROR))"

subsection \<open>getUser\<close>

text \<open>Lines 151 to 165. The function returns the body itself, not an array.\<close>

definition getUser_body :: "'w env \<Rightarrow> jsval \<Rightarrow> (retval, 'w) io" where
  "getUser_body E userId =
     await (User_findByPk E userId) (\<lambda>user.
       case user of
         Some u \<Rightarrow> ret (Body (response OK SUCCESS_msg (UserData u)))
       | None \<Rightarrow> ret (Body (errResponse NO_CONTENT NULL_VALUE)))"

definition getUser :: "'w env \<Rightarrow> jsval \<Rightarrow> 'w \<Rightarrow> outcome \<times> 'w" where
  "getUser E userId =
     try_catch (getUser_body E userId) (\<lambda>err. Body (errResponse DB_ERROR DB_ERROR_msg))"

subsection \<open>editUser\<close>

text \<open>
  Lines 176 to 205. A parameter with the default \<^verbatim>\<open>= null\<close>: the default replaces
  \<^verbatim>\<open>undefined\<close> only.
\<close>

definition default_null :: "jsval \<Rightarrow> jsval" where
  "default_null v = (if v = JUndefined then JNull else v)"

text \<open>
  The \<^verbatim>\<open>for (let key in dataToEdit)\<close> loop, over the properties of
  \<^verbatim>\<open>dataToEdit\<close> that are still to visit. It reads and writes \<^verbatim>\<open>user[key]\<close> under
  the key of \<^verbatim>\<open>dataToEdit\<close>, and collects one object per change in
  \<^verbatim>\<open>updatedData\<close>.
\<close>

fun editUser_loop :: "obj \<Rightarrow> User \<Rightarrow> obj list \<Rightarrow> User \<times> obj list" where
  "editUser_loop [] user updatedData = (user, updatedData)"
| "editUser_loop ((key, v) # todo) user updatedData =
     (if getp user key = v \<or> falsy v then editUser_loop todo user updatedData
      else editUser_loop todo (setp user key v) (updatedData @ [[(key, v)]]))"

text \<open>
  \<^verbatim>\<open>editUser\<close> changes the object it is given: the result carries the object as the call
  leaves it, next to what the function returns.
\<close>

definition editUser ::
  "'w env \<Rightarrow> User \<Rightarrow> jsval \<Rightarrow> jsval \<Rightarrow> jsval \<Rightarrow> 'w \<Rightarrow> (outcome \<times> User) \<times> 'w" where
  "editUser E user newNickname newMbti newPassword w =
     (let dataToEdit =
            [(''newNickname'', default_null newNickname), (''newMbti'', default_null newMbti),
             (''newPassword'', default_null newPassword)];
          (user1, updatedData) = editUser_loop dataToEdit user []
      in if length updatedData = 0 then
           ((Returns (Body (errResponse BAD_REQUEST BAD_REQUEST_msg)), user1), w)
         else
           (case save E user1 w of
              (Inr user2, w') \<Rightarrow> ((Returns (Body (response OK SUCCESS_msg NoData)), user2), w')
            | (Inl err, w') \<Rightarrow> ((Returns (Body (errResponse DB_ERROR DB_ERROR_msg)), user1), w')))"

subsection \<open>deleteUser\<close>

text \<open>
  Lines 213 to 229. The condition handed to \<^verbatim>\<open>destroy\<close> is the user's own email and
  password; the payload of the response is the object after the call.
\<close>

definition deleteUser_body :: "'w env \<Rightarrow> User \<Rightarrow> (retval, 'w) io" where
  "deleteUser_body E user =
     await (destroy E user [(''email'', getp user ''email''), (''password'', getp user ''password'')])
       (\<lambda>user1. ret (Body (response OK SUCCESS_msg (DeletedData user1))))"

definition deleteUser :: "'w env \<Rightarrow> User \<Rightarrow> 'w \<Rightarrow> outcome \<times> 'w" where
  "deleteUser E user =
     try_catch (deleteUser_body E user) (\<lambda>err. Body (errResponse DB_ERROR DB_ERROR_msg))"

section \<open>A reference environment\<close>

text \<open>
  Modelled from the spec: the persistence store, the password hashing, the token issuer and the
  session cache are collaborators outside the sources. This environment follows the spec's
  description of them, for running the service on concrete inputs: a users table with unique
  email and nickname and soft deletion, find-by-field, find-by-key, create, save and
  soft-delete; a token issuer that signs a pair for a user id and decides a reissue with one of
  three outcomes; a cache with delete-by-key.
\<close>

text \<open>
  How the reference environment prints a value into a cache key or a token: a number in plain
  decimal digits, which is what the built-in \<^verbatim>\<open>String\<close> gives for the integers up to
  \<open>2 ^ 53\<close> in magnitude, the ids this store hands out among them.
\<close>

definition digit_char :: "nat \<Rightarrow> char" where
  "digit_char d = ''0123456789'' ! d"

function digits :: "nat \<Rightarrow> string" where
  "digits n = (if n < 10 then [digit_char n] else digits (n div 10) @ [digit_char (n mod 10)])"
  by pat_completeness auto
termination
  by (relation "measure id") auto

declare digits.simps [simp del]

fun mem_String :: "jsval \<Rightarrow> string" where
  "mem_String JUndefined = ''undefined''"
| "mem_String JNull = ''null''"
| "mem_String (JBool b) = (if b then ''true'' else ''false'')"
| "mem_String (JNum n) = (if n < 0 then CHR ''-'' # digits (nat (- n)) else digits (nat n))"
| "mem_String (JStr s) = s"

record world =
  users :: "obj list"
  sessions :: "string list"
  issued :: "jsval list"
  stale :: "jsval list"

fun matches :: "obj \<Rightarrow> obj \<Rightarrow> bool" where
  "matches [] row = True"
| "matches ((k, v) # wh) row = (lookup row k = v \<and> matches wh row)"

definition live :: "obj \<Rightarrow> bool" where
  "live row = falsy (lookup row ''deletedAt'')"

definition mem_findOne :: "obj \<Rightarrow> string list option \<Rightarrow> (User option, world) io" where
  "mem_findOne wh attrs w =
     (Inr (case List.find (\<lambda>row. live row \<and> matches wh row) (users w) of
             None \<Rightarrow> None
           | Some row \<Rightarrow>
               Some \<lparr>dataValues =
                        (case attrs of None \<Rightarrow> row
                         | Some names \<Rightarrow> filter (\<lambda>(k, v). k \<in> set names) row),
                     own = []\<rparr>), w)"

definition mem_findByPk :: "jsval \<Rightarrow> (User option, world) io" where
  "mem_findByPk pk = mem_findOne [(''id'', pk)] None"

definition clashes :: "obj \<Rightarrow> obj \<Rightarrow> bool" where
  "clashes props row =
     (lookup row ''email'' = lookup props ''email''
      \<or> lookup row ''nickname'' = lookup props ''nickname'')"

definition mem_create :: "obj \<Rightarrow> (User, world) io" where
  "mem_create props w =
     (if list_ex (clashes props) (users w) then (Inl (Error ''unique constraint''), w)
      else
        let row = (''id'', JNum (int (length (users w)) + 1)) # props
        in (Inr \<lparr>dataValues = row, own = []\<rparr>, w\<lparr>users := users w @ [row]\<rparr>))"

definition mem_save :: "User \<Rightarrow> (User, world) io" where
  "mem_save u w =
     (Inr u,
      w\<lparr>users :=
          map (\<lambda>row. if lookup row ''id'' = getDataValue u ''id''
                     then fold (\<lambda>(k, v). assign k v) (dataValues u) row else row)
            (users w)\<rparr>)"

definition mem_destroy :: "User \<Rightarrow> obj \<Rightarrow> (User, world) io" where
  "mem_destroy u wh w =
     (Inr (setp u ''deletedAt'' (JBool True)),
      w\<lparr>users :=
          map (\<lambda>row. if lookup row ''id'' = getDataValue u ''id'' \<and> matches wh row
                     then assign ''deletedAt'' (JBool True) row else row)
            (users w)\<rparr>)"

definition mem_hashSync :: "jsval \<Rightarrow> nat \<Rightarrow> exn + jsval" where
  "mem_hashSync password rounds =
     (case password of
        JStr s \<Rightarrow> Inr (JStr (''hash:'' @ s))
      | _ \<Rightarrow> Inl (Error ''data must be a string''))"

definition mem_compareSync :: "jsval \<Rightarrow> jsval \<Rightarrow> exn + bool" where
  "mem_compareSync password encoded =
     (case password of
        JStr s \<Rightarrow>
          (case encoded of
             JStr h \<Rightarrow> Inr (h = ''hash:'' @ s)
           | _ \<Rightarrow> Inl (Error ''data and hash must be strings''))
      | _ \<Rightarrow> Inl (Error ''data and hash must be strings''))"

definition mem_signTokens :: "jsval \<Rightarrow> (jsval \<times> jsval, world) io" where
  "mem_signTokens userId w =
     (Inr (JStr (''access:'' @ mem_String userId), JStr (''refresh:'' @ mem_String userId)),
      w\<lparr>issued := issued w @ [userId]\<rparr>)"

definition mem_resignAccessToken :: "jsval \<Rightarrow> jsval \<Rightarrow> (jsval \<times> jsval, world) io" where
  "mem_resignAccessToken accessToken refreshToken w =
     (if refreshToken \<in> set (map (\<lambda>userId. JStr (''refresh:'' @ mem_String userId)) (issued w))
      then
        if accessToken \<in> set (stale w)
        then (Inr (JStr ''RESIGN_ACCESS_TOKEN'', JStr (''renewed:'' @ mem_String accessToken)), w)
        else (Inr (JStr ''UNNECESSARY'', JUndefined), w)
      else (Inr (JStr ''UNAUTHORIZED'', JUndefined), w))"

definition mem_del :: "string \<Rightarrow> (unit, world) io" where
  "mem_del key w = (Inr (), w\<lparr>sessions := removeAll key (sessions w)\<rparr>)"

definition mem_env :: "world env" where
  "mem_env =
     \<lparr>User_findOne = mem_findOne, User_findByPk = mem_findByPk, User_create = mem_create,
      save = mem_save, destroy = mem_destroy, compareSync = mem_compareSync,
      hashSync = mem_hashSync, signTokens = mem_signTokens,
      resignAccessToken = mem_resignAccessToken, redisClient_del = mem_del,
      js_String = mem_String,
      resignTokenStatus =
        \<lparr>RESIGN_ACCESS_TOKEN = JStr ''RESIGN_ACCESS_TOKEN'',
         UNAUTHORIZED_st = JStr ''UNAUTHORIZED'', UNNECESSARY = JStr ''UNNECESSARY''\<rparr>\<rparr>"

section \<open>Shapes of a result\<close>

text \<open>Whether a call returned the array of a status code and a body, or a body alone.\<close>

fun returns_pair :: "outcome \<Rightarrow> bool" where
  "returns_pair (Returns (Tuple s b)) = True"
| "returns_pair other = False"

fun returns_body :: "outcome \<Rightarrow> bool" where
  "returns_body (Returns (Body b)) = True"
| "returns_body other = False"

section \<open>Sample data\<close>

text \<open>
  An empty world, a world that holds the one user kim, the world after kim has been deleted,
  and the rows that the reference store creates for kim and for lee when they sign up.
\<close>

definition empty_world :: world where
  "empty_world = \<lparr>users = [], sessions = [], issued = [], stale = []\<rparr>"

definition kim_row :: obj where
  "kim_row =
     [(''id'', JNum 1), (''email'', JStr ''kim@payhere.in''), (''password'', JStr ''hash:pw1234''),
      (''nickname'', JStr ''kim''), (''mbti'', JStr ''INTJ'')]"

definition kim :: User where
  "kim = \<lparr>dataValues = kim_row, own = []\<rparr>"

definition kim_world :: world where
  "kim_world = \<lparr>users = [kim_row], sessions = [''1''], issued = [], stale = []\<rparr>"

definition deleted_kim_world :: world where
  "deleted_kim_world = kim_world\<lparr>users := [kim_row @ [(''deletedAt'', JBool True)]]\<rparr>"

definition new_kim_row :: obj where
  "new_kim_row =
     [(''id'', JNum 1), (''email'', JStr ''kim@payhere.in''), (''password'', JStr ''hash:pw1234''),
      (''nickname'', JStr ''kim'')]"

definition lee_row :: obj where
  "lee_row =
     [(''id'', JNum 2), (''email'', JStr ''lee@payhere.in''), (''password'', JStr ''hash:pw5678''),
      (''nickname'', JStr ''lee'')]"

section \<open>Properties of the service\<close>

lemmas io_defs = await_def ret_def sync_def try_catch_def no_catch_def

lemmas mem_defs = mem_env_def mem_findOne_def mem_findByPk_def mem_create_def mem_save_def
  mem_destroy_def mem_hashSync_def mem_compareSync_def mem_signTokens_def
  mem_resignAccessToken_def mem_del_def live_def lookup_def clashes_def getDataValue_def
  getp_def setp_def User_attributes_def Let_def

lemmas sample_defs = empty_world_def kim_world_def kim_row_def kim_def lee_row_def
  new_kim_row_def deleted_kim_world_def

subsection \<open>logout\<close>

text \<open>
  Claim C9. \<^verbatim>\<open>logout(userId)\<close> returns 200 for every user id and in every state of the
  cache, whether or not the cache holds an entry for the id and whatever becomes of the deletion;
  a second call, made in the state the first one leaves, returns 200 again.
\<close>

theorem logout_always_200:
  "fst (logout E userId w) = Returns (Tuple OK (response OK SUCCESS_msg NoData))
   \<and> fst (logout E userId (snd (logout E userId w))) =
       Returns (Tuple OK (response OK SUCCESS_msg NoData))
   \<and> statusCode_value OK = Some 200"
  by (simp add: logout_def split: prod.splits)

subsection \<open>resignToken\<close>

text \<open>
  Claim C8. When the reissue decision yields \<^verbatim>\<open>[result, newAccessToken]\<close> and the three
  members of \<^verbatim>\<open>resignTokenStatus\<close> are distinct values, what \<^verbatim>\<open>resignToken\<close> returns
  is fixed by that decision: status 200 with the new access token and the refresh token it was
  given for a reissue, status 401 for UNAUTHORIZED, status 400 for UNNECESSARY.
\<close>

theorem resignToken_outcomes:
  assumes "resignAccessToken E accessToken refreshToken w = (Inr (result, newAccessToken), w')"
    and "distinct [RESIGN_ACCESS_TOKEN (resignTokenStatus E), UNAUTHORIZED_st (resignTokenStatus E),
           UNNECESSARY (resignTokenStatus E)]"
  shows "(result = RESIGN_ACCESS_TOKEN (resignTokenStatus E) \<longrightarrow>
            resignToken E accessToken refreshToken w =
              (Returns (Tuple OK (response SUCCESS SUCCESS_msg
                 (resignTokenResponse newAccessToken refreshToken))), w'))
       \<and> (result = UNAUTHORIZED_st (resignTokenStatus E) \<longrightarrow>
            resignToken E accessToken refreshToken w =
              (Returns (Tuple UNAUTHORIZED (errResponse UNAUTHORIZED FORBIDDEN)), w'))
       \<and> (result = UNNECESSARY (resignTokenStatus E) \<longrightarrow>
            resignToken E accessToken refreshToken w =
              (Returns (Tuple BAD_REQUEST (errResponse BAD_REQUEST REFRESH_TOKEN_UNNECESSARY)), w'))
       \<and> statusCode_value OK = Some 200 \<and> statusCode_value UNAUTHORIZED = Some 401
       \<and> statusCode_value BAD_REQUEST = Some 400"
  using assms by (auto simp: resignToken_def resignToken_body_def io_defs)

theorem resignToken_outcomes_witness:
  "resignToken mem_env (JStr ''access:kim'') (JStr ''refresh:kim'')
      (empty_world\<lparr>issued := [JStr ''kim''], stale := [JStr ''access:kim'']\<rparr>) =
     (Returns (Tuple OK (response SUCCESS SUCCESS_msg
        (resignTokenResponse (JStr ''renewed:access:kim'') (JStr ''refresh:kim'')))),
      empty_world\<lparr>issued := [JStr ''kim''], stale := [JStr ''access:kim'']\<rparr>)
   \<and> resignToken mem_env (JStr ''access:kim'') (JStr ''refresh:kim'') empty_world =
     (Returns (Tuple UNAUTHORIZED (errResponse UNAUTHORIZED FORBIDDEN)), empty_world)
   \<and> resignToken mem_env (JStr ''access:kim'') (JStr ''refresh:kim'')
      (empty_world\<lparr>issued := [JStr ''kim'']\<rparr>) =
     (Returns (Tuple BAD_REQUEST (errResponse BAD_REQUEST REFRESH_TOKEN_UNNECESSARY)),
      empty_world\<lparr>issued := [JStr ''kim'']\<rparr>)"
  using
    resignToken_outcomes [of mem_env "JStr ''access:kim''" "JStr ''refresh:kim''"
      "empty_world\<lparr>issued := [JStr ''kim''], stale := [JStr ''access:kim'']\<rparr>"
      "JStr ''RESIGN_ACCESS_TOKEN''" "JStr ''renewed:access:kim''"
      "empty_world\<lparr>issued := [JStr ''kim''], stale := [JStr ''access:kim'']\<rparr>"]
    resignToken_outcomes [of mem_env "JStr ''access:kim''" "JStr ''refresh:kim''" empty_world
      "JStr ''UNAUTHORIZED''" JUndefined empty_world]
    resignToken_outcomes [of mem_env "JStr ''access:kim''" "JStr ''refresh:kim''"
      "empty_world\<lparr>issued := [JStr ''kim'']\<rparr>" "JStr ''UNNECESSARY''" JUndefined
      "empty_world\<lparr>issued := [JStr ''kim'']\<rparr>"]
  by (simp add: mem_env_def mem_resignAccessToken_def empty_world_def)

text \<open>
  Claim C10. When the reissue decision yields a result that is none of the three members of
  \<^verbatim>\<open>resignTokenStatus\<close>, no branch of \<^verbatim>\<open>resignToken\<close> is taken and the function
  returns \<^verbatim>\<open>undefined\<close>: neither the array nor an error response.
\<close>

theorem resignToken_unrecognised:
  assumes "resignAccessToken E accessToken refreshToken w = (Inr (result, newAccessToken), w')"
    and "result \<noteq> RESIGN_ACCESS_TOKEN (resignTokenStatus E)"
    and "result \<noteq> UNAUTHORIZED_st (resignTokenStatus E)"
    and "result \<noteq> UNNECESSARY (resignTokenStatus E)"
  shows "resignToken E accessToken refreshToken w = (Returns Undefined, w')"
  using assms by (simp add: resignToken_def resignToken_body_def io_defs)

theorem resignToken_unrecognised_witness:
  "resignToken (mem_env\<lparr>resignAccessToken := \<lambda>a r w. (Inr (JStr ''EXPIRED'', JUndefined), w)\<rparr>)
      (JStr ''access:kim'') (JStr ''refresh:kim'') empty_world = (Returns Undefined, empty_world)"
  using resignToken_unrecognised
    [of "mem_env\<lparr>resignAccessToken := \<lambda>a r w. (Inr (JStr ''EXPIRED'', JUndefined), w)\<rparr>"
      "JStr ''access:kim''" "JStr ''refresh:kim''" empty_world "JStr ''EXPIRED''" JUndefined
      empty_world]
  by (simp add: mem_env_def)

subsection \<open>login\<close>

text \<open>
  Claim C6. Let the lookup by email answer. When it finds no user, and when it finds one but the
  password does not match the stored hash, \<^verbatim>\<open>login\<close> returns 400 with INVALID_USER_INFO.
  When it finds a user whose stored hash the password matches, and the token issuer signs a pair
  for the user's id, \<^verbatim>\<open>login\<close> returns 200 with that access and refresh token.
\<close>

theorem login_outcomes:
  assumes "User_findOne E [(''email'', email)] (Some [''id'', ''password'']) w = (Inr found, w1)"
  shows "(found = None \<longrightarrow>
            login E email password w =
              (Returns (Tuple BAD_REQUEST (errResponse BAD_REQUEST INVALID_USER_INFO)), w1))
       \<and> (\<forall>u. found = Some u
              \<and> compareSync E password (getDataValue u ''password'') = Inr False \<longrightarrow>
            login E email password w =
              (Returns (Tuple BAD_REQUEST (errResponse BAD_REQUEST INVALID_USER_INFO)), w1))
       \<and> (\<forall>u accessToken refreshToken w2. found = Some u
              \<and> compareSync E password (getDataValue u ''password'') = Inr True
              \<and> signTokens E (getDataValue u ''id'') w1 =
                   (Inr (accessToken, refreshToken), w2) \<longrightarrow>
            login E email password w =
              (Returns (Tuple OK
                 (response OK SUCCESS_msg (loginResponse accessToken refreshToken))), w2))
       \<and> statusCode_value BAD_REQUEST = Some 400 \<and> statusCode_value OK = Some 200"
  using assms by (auto simp: login_def login_body_def io_defs Let_def)

theorem login_outcomes_witness:
  "login mem_env (JStr ''lee@payhere.in'') (JStr ''pw1234'') kim_world =
     (Returns (Tuple BAD_REQUEST (errResponse BAD_REQUEST INVALID_USER_INFO)), kim_world)
   \<and> login mem_env (JStr ''kim@payhere.in'') (JStr ''guess'') kim_world =
     (Returns (Tuple BAD_REQUEST (errResponse BAD_REQUEST INVALID_USER_INFO)), kim_world)
   \<and> login mem_env (JStr ''kim@payhere.in'') (JStr ''pw1234'') kim_world =
     (Returns (Tuple OK (response OK SUCCESS_msg
        (loginResponse (JStr ''access:1'') (JStr ''refresh:1'')))),
      kim_world\<lparr>issued := [JNum 1]\<rparr>)"
proof -
  let ?found = "\<lparr>dataValues = [(''id'', JNum 1), (''password'', JStr ''hash:pw1234'')], own = []\<rparr>"
  have absent:
    "User_findOne mem_env [(''email'', JStr ''lee@payhere.in'')] (Some [''id'', ''password''])
       kim_world = (Inr None, kim_world)"
    by (simp add: mem_defs sample_defs)
  have present:
    "User_findOne mem_env [(''email'', JStr ''kim@payhere.in'')] (Some [''id'', ''password''])
       kim_world = (Inr (Some ?found), kim_world)"
    by (simp add: mem_defs sample_defs)
  have wrong:
    "compareSync mem_env (JStr ''guess'') (getDataValue ?found ''password'') = Inr False"
    by (simp add: mem_defs)
  have right:
    "compareSync mem_env (JStr ''pw1234'') (getDataValue ?found ''password'') = Inr True"
    by (simp add: mem_defs)
  have signed:
    "signTokens mem_env (getDataValue ?found ''id'') kim_world =
       (Inr (JStr ''access:1'', JStr ''refresh:1''), kim_world\<lparr>issued := [JNum 1]\<rparr>)"
    by (simp add: mem_defs sample_defs digits.simps digit_char_def)
  have unknown_email:
    "login mem_env (JStr ''lee@payhere.in'') (JStr ''pw1234'') kim_world =
       (Returns (Tuple BAD_REQUEST (errResponse BAD_REQUEST INVALID_USER_INFO)), kim_world)"
    using login_outcomes [OF absent, of "JStr ''pw1234''"] by simp
  have wrong_password:
    "login mem_env (JStr ''kim@payhere.in'') (JStr ''guess'') kim_world =
       (Returns (Tuple BAD_REQUEST (errResponse BAD_REQUEST INVALID_USER_INFO)), kim_world)"
    using login_outcomes [OF present, of "JStr ''guess''"] wrong by simp
  have right_password:
    "login mem_env (JStr ''kim@payhere.in'') (JStr ''pw1234'') kim_world =
       (Returns (Tuple OK (response OK SUCCESS_msg
          (loginResponse (JStr ''access:1'') (JStr ''refresh:1'')))),
        kim_world\<lparr>issued := [JNum 1]\<rparr>)"
    using login_outcomes [OF present, of "JStr ''pw1234''"] right signed by simp
  show ?thesis
    using unknown_email wrong_password right_password by simp
qed

subsection \<open>signUp\<close>




text \<open>
  Claim C4. On a successful \<^verbatim>\<open>signUp\<close> the tokens of the response should be signed for
  the id of the user just created. \<^verbatim>\<open>signUp\<close> reads \<^verbatim>\<open>newUser.user_id\<close>, where
  \<^verbatim>\<open>login\<close> reads the attribute \<^verbatim>\<open>id\<close>: \<^verbatim>\<open>user_id\<close> is no attribute of the
  model, so the value read is \<^verbatim>\<open>undefined\<close>. Signing up kim in the empty world creates the
  user with id 1 and returns tokens signed for \<^verbatim>\<open>undefined\<close>.
\<close>

theorem signUp_signs_for_undefined:
  "signUp mem_env (JStr ''kim@payhere.in'') (JStr ''pw1234'') (JStr ''kim'') empty_world =
     (Returns (Tuple OK (response OK SUCCESS_msg
        (signUpResponse (JStr ''access:undefined'') (JStr ''refresh:undefined'')))),
      empty_world\<lparr>users := [new_kim_row], issued := [JUndefined]\<rparr>)
   \<and> getp \<lparr>dataValues = new_kim_row, own = []\<rparr> ''id'' = JNum 1"
  by (simp add: signUp_def signUp_body_def io_defs mem_defs sample_defs)

text \<open>
  The same in any environment: an object that carries no own property \<^verbatim>\<open>user_id\<close> gives
  \<^verbatim>\<open>undefined\<close> there, whatever its id.
\<close>

lemma user_id_undefined: "map_of (own u) ''user_id'' = None \<Longrightarrow> getp u ''user_id'' = JUndefined"
  by (simp add: getp_def User_attributes_def lookup_def)

subsection \<open>Exceptions\<close>

text \<open>
  Claim C3. An exception of a collaborator should be caught in every operation and turned into
  the generic error response. \<^verbatim>\<open>resignToken\<close> has no handler, unlike \<^verbatim>\<open>login\<close> and
  \<^verbatim>\<open>signUp\<close>, which catch what the same token utilities throw: when the reissue decision
  throws, the exception leaves \<^verbatim>\<open>resignToken\<close>.
\<close>

theorem resignToken_exception_escapes:
  "resignToken (mem_env\<lparr>resignAccessToken := \<lambda>a r w. (Inl (Error ''jwt malformed''), w)\<rparr>)
      (JStr ''access:kim'') (JStr ''refresh:kim'') empty_world =
     (Throws (Error ''jwt malformed''), empty_world)"
  by (simp add: resignToken_def resignToken_body_def io_defs mem_env_def)

text \<open>In any environment: what the reissue decision throws is what \<^verbatim>\<open>resignToken\<close> throws.\<close>

lemma resignToken_throws:
  "resignAccessToken E accessToken refreshToken w = (Inl err, w') \<Longrightarrow>
   resignToken E accessToken refreshToken w = (Throws err, w')"
  by (simp add: resignToken_def resignToken_body_def io_defs)

text \<open>
  The operations with a handler turn an exception of their body into the generic response
  (for \<^verbatim>\<open>editUser\<close>, an exception of \<^verbatim>\<open>save\<close>).
\<close>

lemma login_catches:
  "login_body E email password w = (Inl err, w') \<Longrightarrow>
   login E email password w =
     (Returns (Tuple DB_ERROR (errResponse DB_ERROR INTERNAL_SERVER_ERROR)), w')"
  by (simp add: login_def try_catch_def)

lemma signUp_catches:
  "signUp_body E email password nickname w = (Inl err, w') \<Longrightarrow>
   signUp E email password nickname w =
     (Returns (Tuple DB_ERROR (errResponse DB_ERROR INTERNAL_SERVER_ERROR)), w')"
  by (simp add: signUp_def try_catch_def)

lemma getUser_catches:
  "User_findByPk E userId w = (Inl err, w') \<Longrightarrow>
   getUser E userId w = (Returns (Body (errResponse DB_ERROR DB_ERROR_msg)), w')"
  by (simp add: getUser_def getUser_body_def io_defs)

lemma deleteUser_catches:
  "destroy E user [(''email'', getp user ''email''), (''password'', getp user ''password'')] w =
     (Inl err, w') \<Longrightarrow>
   deleteUser E user w = (Returns (Body (errResponse DB_ERROR DB_ERROR_msg)), w')"
  by (simp add: deleteUser_def deleteUser_body_def io_defs)

subsection \<open>The shape of what is returned\<close>

lemma login_returns_pair: "returns_pair (fst (login E email password w))"
  by (auto simp: login_def login_body_def io_defs Let_def
      split: prod.splits sum.splits option.splits)

lemma signUp_returns_pair: "returns_pair (fst (signUp E email password nickname w))"
  by (auto simp: signUp_def signUp_body_def io_defs Let_def
      split: prod.splits sum.splits option.splits)

lemma logout_returns_pair: "returns_pair (fst (logout E userId w))"
  by (simp add: logout_def split: prod.splits)

lemma getUser_returns_body: "returns_body (fst (getUser E userId w))"
  by (auto simp: getUser_def getUser_body_def io_defs split: prod.splits sum.splits option.splits)

lemma editUser_returns_body:
  "returns_body (fst (fst (editUser E user newNickname newMbti newPassword w)))"
  by (simp add: editUser_def Let_def split: prod.splits sum.splits del: editUser_loop.simps)

lemma deleteUser_returns_body: "returns_body (fst (deleteUser E user w))"
  by (auto simp: deleteUser_def deleteUser_body_def io_defs split: prod.splits sum.splits)

lemma resignToken_returns_pair:
  "resignAccessToken E accessToken refreshToken w = (Inr (result, newAccessToken), w') \<Longrightarrow>
   result \<in> {RESIGN_ACCESS_TOKEN (resignTokenStatus E), UNAUTHORIZED_st (resignTokenStatus E),
     UNNECESSARY (resignTokenStatus E)} \<Longrightarrow>
   returns_pair (fst (resignToken E accessToken refreshToken w))"
  by (auto simp: resignToken_def resignToken_body_def io_defs)

text \<open>
  Claim C2, as stated, fails: \<^verbatim>\<open>getUser\<close> on the user kim returns the body alone, not an
  array with the status code in front.
\<close>

theorem getUser_returns_no_pair:
  "fst (getUser mem_env (JNum 1) kim_world) = Returns (Body (response OK SUCCESS_msg (UserData kim)))
   \<and> \<not> returns_pair (fst (getUser mem_env (JNum 1) kim_world))"
  by (simp add: getUser_def getUser_body_def io_defs mem_defs sample_defs)

text \<open>
  Claim C2, amended. \<^verbatim>\<open>login\<close>, \<^verbatim>\<open>signUp\<close> and \<^verbatim>\<open>logout\<close> always return the
  array of a status code and a body, and so does \<^verbatim>\<open>resignToken\<close> when the reissue decision
  is one of the three members of \<^verbatim>\<open>resignTokenStatus\<close>. \<^verbatim>\<open>getUser\<close>,
  \<^verbatim>\<open>editUser\<close> and \<^verbatim>\<open>deleteUser\<close> always return the body alone, which carries its status
  inside, as their documentation says.
\<close>

theorem operations_return_shape:
  "returns_pair (fst (login E email password w))
   \<and> returns_pair (fst (signUp E email password nickname w))
   \<and> returns_pair (fst (logout E userId w))
   \<and> (\<forall>result newAccessToken w'.
         resignAccessToken E accessToken refreshToken w = (Inr (result, newAccessToken), w')
         \<and> result \<in> {RESIGN_ACCESS_TOKEN (resignTokenStatus E),
              UNAUTHORIZED_st (resignTokenStatus E), UNNECESSARY (resignTokenStatus E)} \<longrightarrow>
         returns_pair (fst (resignToken E accessToken refreshToken w)))
   \<and> returns_body (fst (getUser E userId w))
   \<and> returns_body (fst (fst (editUser E user newNickname newMbti newPassword w)))
   \<and> returns_body (fst (deleteUser E user w))"
proof -
  have resign:
    "\<forall>result newAccessToken w'.
      resignAccessToken E accessToken refreshToken w = (Inr (result, newAccessToken), w')
      \<and> result \<in> {RESIGN_ACCESS_TOKEN (resignTokenStatus E),
           UNAUTHORIZED_st (resignTokenStatus E), UNNECESSARY (resignTokenStatus E)} \<longrightarrow>
      returns_pair (fst (resignToken E accessToken refreshToken w))"
  proof (intro allI impI, elim conjE)
    fix result newAccessToken w'
    assume "resignAccessToken E accessToken refreshToken w = (Inr (result, newAccessToken), w')"
      and "result \<in> {RESIGN_ACCESS_TOKEN (resignTokenStatus E),
           UNAUTHORIZED_st (resignTokenStatus E), UNNECESSARY (resignTokenStatus E)}"
    then show "returns_pair (fst (resignToken E accessToken refreshToken w))"
      by (rule resignToken_returns_pair)
  qed
  show ?thesis
    by (intro conjI resign login_returns_pair signUp_returns_pair logout_returns_pair
        getUser_returns_body editUser_returns_body deleteUser_returns_body)
qed

theorem operations_return_shape_witness:
  "returns_pair (fst (resignToken mem_env (JStr ''access:kim'') (JStr ''refresh:kim'') empty_world))
   \<and> returns_body (fst (getUser mem_env (JNum 1) kim_world))"
proof -
  have decided:
    "resignAccessToken mem_env (JStr ''access:kim'') (JStr ''refresh:kim'') empty_world =
       (Inr (JStr ''UNAUTHORIZED'', JUndefined), empty_world)"
    by (simp add: mem_defs sample_defs)
  have known:
    "JStr ''UNAUTHORIZED'' \<in> {RESIGN_ACCESS_TOKEN (resignTokenStatus mem_env),
       UNAUTHORIZED_st (resignTokenStatus mem_env), UNNECESSARY (resignTokenStatus mem_env)}"
    by (simp add: mem_defs)
  show ?thesis
    using operations_return_shape
      [where E = mem_env and w = empty_world and accessToken = "JStr ''access:kim''"
        and refreshToken = "JStr ''refresh:kim''"]
      operations_return_shape [where E = mem_env and w = kim_world and userId = "JNum 1"]
      decided known
    by blast
qed

subsection \<open>editUser\<close>

text \<open>
  The loop of \<^verbatim>\<open>editUser\<close> visits the keys \<^verbatim>\<open>newNickname\<close>, \<^verbatim>\<open>newMbti\<close> and
  \<^verbatim>\<open>newPassword\<close>, none of them an attribute of the model: whatever it is given, it leaves
  the attribute values of the user as they are. With nothing but falsy arguments it changes
  nothing at all, and \<^verbatim>\<open>editUser\<close> returns the 400 response without a call to the store.
\<close>

lemma editUser_loop_keeps_attributes:
  "dataValues (fst (editUser_loop
      [(''newNickname'', a), (''newMbti'', b), (''newPassword'', c)] user acc)) = dataValues user"
  by (simp add: setp_def User_attributes_def)

lemma editUser_nothing_given:
  "falsy (default_null newNickname) \<Longrightarrow> falsy (default_null newMbti) \<Longrightarrow>
   falsy (default_null newPassword) \<Longrightarrow>
   editUser E user newNickname newMbti newPassword w =
     ((Returns (Body (errResponse BAD_REQUEST BAD_REQUEST_msg)), user), w)"
  by (simp add: editUser_def)

text \<open>
  Claim C1. \<^verbatim>\<open>editUser\<close> should answer 400 and persist nothing when every value given is
  absent or equal to the user's current one. The loop compares the new nickname with
  \<^verbatim>\<open>user.newNickname\<close>, not with \<^verbatim>\<open>user.nickname\<close>: given kim's own nickname again,
  \<^verbatim>\<open>editUser\<close> counts a change, calls \<^verbatim>\<open>save\<close> and answers 200.
\<close>

theorem editUser_same_nickname_saved:
  "getp kim ''nickname'' = JStr ''kim''
   \<and> editUser mem_env kim (JStr ''kim'') JNull JNull kim_world =
     ((Returns (Body (response OK SUCCESS_msg NoData)),
       kim\<lparr>own := [(''newNickname'', JStr ''kim'')]\<rparr>), kim_world)"
  by (simp add: editUser_def default_null_def mem_defs sample_defs)

text \<open>
  Claim C5. \<^verbatim>\<open>editUser\<close> with one new value should overwrite that field of the user and
  answer 200. Given a new nickname for kim it answers 200, but writes the value to the property
  \<^verbatim>\<open>newNickname\<close> of the object: the nickname of the object and the stored row keep the
  old value.
\<close>

theorem editUser_new_nickname_not_written:
  "editUser mem_env kim (JStr ''kimchi'') JNull JNull kim_world =
     ((Returns (Body (response OK SUCCESS_msg NoData)),
       kim\<lparr>own := [(''newNickname'', JStr ''kimchi'')]\<rparr>), kim_world)
   \<and> getp (kim\<lparr>own := [(''newNickname'', JStr ''kimchi'')]\<rparr>) ''nickname'' = JStr ''kim''
   \<and> users kim_world = [kim_row]"
  by (simp add: editUser_def default_null_def mem_defs sample_defs)

end
